theory Spec2Isabelle
  imports Complex_Main
begin

section \<open>Numeric types\<close>

text \<open>
  The source computes on IEEE doubles through Eigen. A finite double is idealised as a
  \<^typ>\<open>real\<close>: rounding is not modelled. A division whose divisor may be zero is written
  with \<open>fdiv\<close>, whose value \<open>None\<close> stands for the non-finite result (an infinity or
  NaN) that the machine division gives there; HOL's own \<open>x / 0 = 0\<close> is never relied on.

  Eigen's fixed-size types are datatypes, so that the size is part of the type as in C++:
  \<open>Vec3\<close> has three coefficients, \<open>Mat3\<close> three rows. The dynamically sized \<open>Mat\<close>
  carries its row and column counts and a coefficient function \<open>coeff M r c\<close> for
  \<open>M(r, c)\<close>; only coefficients inside the bounds are ever read. A dynamically indexed
  vector (\<open>Vec9\<close>, \<open>Vec4\<close>) is its coefficient function.
\<close>

datatype Vec3 = Vec3 (c0: real) (c1: real) (c2: real)

datatype Mat3 = Mat3 (r0: Vec3) (r1: Vec3) (r2: Vec3)

record Mat =
  rows :: nat
  cols :: nat
  coeff :: "nat \<Rightarrow> nat \<Rightarrow> real"

type_synonym Vec = "nat \<Rightarrow> real"

type_synonym Mat34 = "nat \<Rightarrow> nat \<Rightarrow> real"

definition fdiv :: "real \<Rightarrow> real \<Rightarrow> real option" where
  "fdiv a b = (if b = 0 then None else Some (a / b))"

definition dot3 :: "Vec3 \<Rightarrow> Vec3 \<Rightarrow> real" where
  "dot3 a b = c0 a * c0 b + c1 a * c1 b + c2 a * c2 b"

definition squaredNorm :: "Vec3 \<Rightarrow> real" where
  "squaredNorm a = dot3 a a"

definition norm3 :: "Vec3 \<Rightarrow> real" where
  "norm3 a = sqrt (squaredNorm a)"

text \<open>
  Eigen's \<open>normalized()\<close>: the vector divided by its norm, and the vector itself when
  its squared norm is not positive.
\<close>

definition normalized :: "Vec3 \<Rightarrow> Vec3" where
  "normalized a =
     (let z = squaredNorm a
      in if z > 0 then Vec3 (c0 a / sqrt z) (c1 a / sqrt z) (c2 a / sqrt z) else a)"

definition mat_vec :: "Mat3 \<Rightarrow> Vec3 \<Rightarrow> Vec3" where
  "mat_vec M x = Vec3 (dot3 (r0 M) x) (dot3 (r1 M) x) (dot3 (r2 M) x)"

definition transpose3 :: "Mat3 \<Rightarrow> Mat3" where
  "transpose3 M =
     Mat3 (Vec3 (c0 (r0 M)) (c0 (r1 M)) (c0 (r2 M)))
          (Vec3 (c1 (r0 M)) (c1 (r1 M)) (c1 (r2 M)))
          (Vec3 (c2 (r0 M)) (c2 (r1 M)) (c2 (r2 M)))"

definition mat_mul :: "Mat3 \<Rightarrow> Mat3 \<Rightarrow> Mat3" where
  "mat_mul A B =
     (let Bt = transpose3 B
      in Mat3 (mat_vec Bt (r0 A)) (mat_vec Bt (r1 A)) (mat_vec Bt (r2 A)))"

definition asDiagonal :: "Vec3 \<Rightarrow> Mat3" where
  "asDiagonal d = Mat3 (Vec3 (c0 d) 0 0) (Vec3 0 (c1 d) 0) (Vec3 0 0 (c2 d))"

definition Identity3 :: Mat3 where
  "Identity3 = asDiagonal (Vec3 1 1 1)"

text \<open>\<open>Map<RMat3>(e.data())\<close>: the nine coefficients read row by row.\<close>

definition Map_RMat3 :: "Vec \<Rightarrow> Mat3" where
  "Map_RMat3 e = Mat3 (Vec3 (e 0) (e 1) (e 2)) (Vec3 (e 3) (e 4) (e 5)) (Vec3 (e 6) (e 7) (e 8))"

text \<open>A freshly constructed \<open>Mat(r, c)\<close>; its coefficients, unset in C++, are written before they are read.\<close>

definition new_Mat :: "nat \<Rightarrow> nat \<Rightarrow> Mat" where
  "new_Mat r c = \<lparr>rows = r, cols = c, coeff = (\<lambda>i j. 0)\<rparr>"

definition set_coeff :: "Mat \<Rightarrow> nat \<Rightarrow> nat \<Rightarrow> real \<Rightarrow> Mat" where
  "set_coeff M r c v = M\<lparr>coeff := (coeff M)(r := (coeff M r)(c := v))\<rparr>"

definition col3 :: "Mat \<Rightarrow> nat \<Rightarrow> Vec3" where
  "col3 M i = Vec3 (coeff M 0 i) (coeff M 1 i) (coeff M 2 i)"

section \<open>Failures\<close>

text \<open>
  A failed \<open>assert\<close> aborts and \<open>throw std::logic_error\<close> unwinds. A procedure that
  writes to \<open>models\<close> returns the failure, if any, together with the contents of
  \<open>models\<close> when it stops. Assertions are modelled as enabled.
\<close>

datatype error = AssertionFailure | LogicError string

type_synonym 's outcome = "error option \<times> 's"

section \<open>Linear-algebra primitives taken as parameters\<close>

text \<open>
  \<open>Nullspace\<close> (aliceVision/numeric) and \<open>Eigen::JacobiSVD\<close> are not part of the file
  under verification. The solver and the triangulation take them as parameters
  \<open>Nullspace :: Mat \<Rightarrow> Vec\<close> and \<open>JacobiSVD :: Mat3 \<Rightarrow> JacobiSVD\<close>; what they are
  expected to compute is stated by the predicates \<open>is_null_vector\<close> and \<open>is_svd\<close>
  and assumed only where a theorem needs it.
\<close>

record JacobiSVD =
  matrixU :: Mat3
  singularValues :: Vec3
  matrixV :: Mat3

definition residual :: "Mat \<Rightarrow> Vec \<Rightarrow> real" where
  "residual A v = (\<Sum>i<rows A. (\<Sum>j<cols A. coeff A i j * v j)\<^sup>2)"

definition unit_vec :: "nat \<Rightarrow> Vec \<Rightarrow> bool" where
  "unit_vec n v = ((\<Sum>j<n. (v j)\<^sup>2) = 1)"

text \<open>
  The right null vector of \<open>A\<close>: a unit vector whose image under \<open>A\<close> has the least norm
  among unit vectors, that is a right singular vector of the smallest singular value.
\<close>

definition is_null_vector :: "Mat \<Rightarrow> Vec \<Rightarrow> bool" where
  "is_null_vector A e =
     (unit_vec (cols A) e \<and> (\<forall>v. unit_vec (cols A) v \<longrightarrow> residual A e \<le> residual A v))"

definition orthogonal3 :: "Mat3 \<Rightarrow> bool" where
  "orthogonal3 U = (mat_mul (transpose3 U) U = Identity3)"

definition is_svd :: "Mat3 \<Rightarrow> JacobiSVD \<Rightarrow> bool" where
  "is_svd E s =
     (orthogonal3 (matrixU s) \<and> orthogonal3 (matrixV s) \<and>
      c0 (singularValues s) \<ge> c1 (singularValues s) \<and>
      c1 (singularValues s) \<ge> c2 (singularValues s) \<and>
      c2 (singularValues s) \<ge> 0 \<and>
      E = mat_mul (mat_mul (matrixU s) (asDiagonal (singularValues s))) (transpose3 (matrixV s)))"

text \<open>\<open>d\<close> are singular values of \<open>E\<close>: some decomposition of \<open>E\<close> has them.\<close>

definition has_singular_values :: "Mat3 \<Rightarrow> Vec3 \<Rightarrow> bool" where
  "has_singular_values E d = (\<exists>U V. is_svd E \<lparr>matrixU = U, singularValues = d, matrixV = V\<rparr>)"

text \<open>
  The essential-matrix structure: two equal nonzero singular values and one zero.
\<close>

definition essential_structure :: "Mat3 \<Rightarrow> bool" where
  "essential_structure E = (\<exists>s. s > 0 \<and> has_singular_values E (Vec3 s s 0))"

section \<open>EightPointRelativePoseSolver\<close>

datatype Mat3Model = Mat3Model (getMatrix: Mat3)

definition getMinimumNbRequiredSamples :: nat where
  "getMinimumNbRequiredSamples = 8"

definition getMaximumNbModels :: nat where
  "getMaximumNbModels = 1"

text \<open>The body of the loop of \<open>encodeEpipolarEquation\<close> for one \<open>i\<close>.\<close>

definition encode_row :: "Mat \<Rightarrow> Mat \<Rightarrow> nat \<Rightarrow> Mat \<Rightarrow> Mat" where
  "encode_row x1 x2 i A =
     (let A = set_coeff A i 0 (coeff x2 0 i * coeff x1 0 i);
          A = set_coeff A i 1 (coeff x2 0 i * coeff x1 1 i);
          A = set_coeff A i 2 (coeff x2 0 i * coeff x1 2 i);
          A = set_coeff A i 3 (coeff x2 1 i * coeff x1 0 i);
          A = set_coeff A i 4 (coeff x2 1 i * coeff x1 1 i);
          A = set_coeff A i 5 (coeff x2 1 i * coeff x1 2 i);
          A = set_coeff A i 6 (coeff x2 2 i * coeff x1 0 i);
          A = set_coeff A i 7 (coeff x2 2 i * coeff x1 1 i);
          A = set_coeff A i 8 (coeff x2 2 i * coeff x1 2 i)
      in A)"

function encodeEpipolarEquation_loop :: "Mat \<Rightarrow> Mat \<Rightarrow> nat \<Rightarrow> Mat \<Rightarrow> Mat" where
  "encodeEpipolarEquation_loop x1 x2 i A =
     (if i < cols x1 then encodeEpipolarEquation_loop x1 x2 (i + 1) (encode_row x1 x2 i A)
      else A)"
  by pat_completeness auto
termination
  by (relation "measure (\<lambda>(x1, x2, i, A). cols x1 - i)") auto

definition encodeEpipolarEquation :: "Mat \<Rightarrow> Mat \<Rightarrow> Mat \<Rightarrow> Mat" where
  "encodeEpipolarEquation x1 x2 A = encodeEpipolarEquation_loop x1 x2 0 A"

definition solve ::
  "(Mat \<Rightarrow> Vec) \<Rightarrow> (Mat3 \<Rightarrow> JacobiSVD) \<Rightarrow> Mat \<Rightarrow> Mat \<Rightarrow> Mat3Model list \<Rightarrow> Mat3Model list outcome" where
  "solve Nullspace JacobiSVD x1 x2 models =
     (if \<not> (3 = rows x1) then (Some AssertionFailure, models)
      else if \<not> (8 \<le> cols x1) then (Some AssertionFailure, models)
      else if \<not> (rows x1 = rows x2) then (Some AssertionFailure, models)
      else if \<not> (cols x1 = cols x2) then (Some AssertionFailure, models)
      else
        let A = encodeEpipolarEquation x1 x2 (new_Mat (cols x1) 9);
            e = Nullspace A;
            E = Map_RMat3 e;
            E = (if cols x1 > 8 then
                   let USV = JacobiSVD E;
                       d = singularValues USV;
                       a = c0 d;
                       b = c1 d;
                       d = Vec3 ((a + b) / 2) ((a + b) / 2) 0
                   in mat_mul (mat_mul (matrixU USV) (asDiagonal d)) (transpose3 (matrixV USV))
                 else E)
        in (None, models @ [Mat3Model E]))"

definition solve_weighted ::
  "Mat \<Rightarrow> Mat \<Rightarrow> Mat3Model list \<Rightarrow> real list \<Rightarrow> Mat3Model list outcome" where
  "solve_weighted x1 x2 models weights =
     (Some (LogicError ''EightPointRelativePoseSolver does not support problem solving with weights.''),
      models)"

section \<open>planarToSpherical\<close>

definition set_col3 :: "Mat \<Rightarrow> nat \<Rightarrow> Vec3 \<Rightarrow> Mat" where
  "set_col3 M i v =
     (let M = set_coeff M 0 i (c0 v);
          M = set_coeff M 1 i (c1 v);
          M = set_coeff M 2 i (c2 v)
      in M)"

text \<open>\<open>resize\<close> sets the shape; the coefficients are written by the loop before they are read.\<close>

definition resize :: "Mat \<Rightarrow> nat \<Rightarrow> nat \<Rightarrow> Mat" where
  "resize M r c = M\<lparr>rows := r, cols := c\<rparr>"

text \<open>
  The body of the loop for the planar point \<open>(x, y)\<close>. \<open>None\<close>: a division by a zero
  width or height made the column non-finite.
\<close>

definition spherical_direction :: "real \<Rightarrow> real \<Rightarrow> nat \<Rightarrow> nat \<Rightarrow> Vec3 option" where
  "spherical_direction x y width height =
     (case fdiv x (real width) of
        None \<Rightarrow> None
      | Some uval \<Rightarrow>
          (case fdiv y (real height) of
             None \<Rightarrow> None
           | Some vval \<Rightarrow>
               Some (normalized
                 (Vec3 (sin (vval * pi) * cos (pi * (2.0 * uval + 0.5)))
                       (cos (vval * pi))
                       (sin (vval * pi) * sin (pi * (2.0 * uval + 0.5)))))))"

function planarToSpherical_loop :: "Mat \<Rightarrow> nat \<Rightarrow> nat \<Rightarrow> nat \<Rightarrow> Mat \<Rightarrow> Mat option" where
  "planarToSpherical_loop planarCoords width height iCol sphericalCoords =
     (if iCol < cols planarCoords then
        (case spherical_direction (coeff planarCoords 0 iCol) (coeff planarCoords 1 iCol) width height of
           None \<Rightarrow> None
         | Some v \<Rightarrow>
             planarToSpherical_loop planarCoords width height (iCol + 1)
               (set_col3 sphericalCoords iCol v))
      else Some sphericalCoords)"
  by pat_completeness auto
termination
  by (relation "measure (\<lambda>(p, w, h, i, s). cols p - i)") auto

definition planarToSpherical :: "Mat \<Rightarrow> nat \<Rightarrow> nat \<Rightarrow> Mat \<Rightarrow> Mat option" where
  "planarToSpherical planarCoords width height sphericalCoords =
     planarToSpherical_loop planarCoords width height 0
       (resize sphericalCoords 3 (cols planarCoords))"

section \<open>AngularError\<close>

text \<open>
  \<open>angleVal /= (x2.norm() * Em1.norm())\<close> divides by zero when \<open>x2\<close> or \<open>Em1\<close> is the
  zero vector; the numerator is then zero as well and the double is NaN, which \<open>asin\<close>
  and \<open>abs\<close> hand on. \<open>asin\<close> is NaN outside \<open>[-1, 1]\<close>. \<open>None\<close> is that NaN; \<open>abs\<close> is
  taken as the floating-point absolute value.
\<close>

definition AngularError_error :: "Mat3Model \<Rightarrow> Vec3 \<Rightarrow> Vec3 \<Rightarrow> real option" where
  "AngularError_error model x1 x2 =
     (let Em1 = normalized (mat_vec (getMatrix model) x1);
          angleVal = dot3 x2 Em1
      in case fdiv angleVal (norm3 x2 * norm3 Em1) of
           None \<Rightarrow> None
         | Some angleVal \<Rightarrow>
             if - 1 \<le> angleVal \<and> angleVal \<le> 1 then Some \<bar>arcsin angleVal\<bar> else None)"

section \<open>EssentialKernel_spherical\<close>

text \<open>The kernel holds \<open>KernelBase::_x1\<close> and \<open>KernelBase::_x2\<close>.\<close>

record EssentialKernel_spherical =
  kernel_x1 :: Mat
  kernel_x2 :: Mat

text \<open>
  Modelled from the spec: \<open>KernelBase::getMinimumNbRequiredSamples\<close> of
  PointFittingKernel is a passthrough to the solver's minimum sample count.
\<close>

definition KernelBase_getMinimumNbRequiredSamples :: nat where
  "KernelBase_getMinimumNbRequiredSamples = getMinimumNbRequiredSamples"

definition fit ::
  "(Mat \<Rightarrow> Vec) \<Rightarrow> (Mat3 \<Rightarrow> JacobiSVD) \<Rightarrow> EssentialKernel_spherical \<Rightarrow> nat list \<Rightarrow>
   Mat3Model list \<Rightarrow> Mat3Model list outcome" where
  "fit Nullspace JacobiSVD k samples models =
     (if \<not> (3 = rows (kernel_x1 k)) then (Some AssertionFailure, models)
      else if \<not> (KernelBase_getMinimumNbRequiredSamples \<le> cols (kernel_x1 k))
        then (Some AssertionFailure, models)
      else if \<not> (rows (kernel_x1 k) = rows (kernel_x2 k)) then (Some AssertionFailure, models)
      else if \<not> (cols (kernel_x1 k) = cols (kernel_x2 k)) then (Some AssertionFailure, models)
      else solve Nullspace JacobiSVD (kernel_x1 k) (kernel_x2 k) models)"

text \<open>
  The specification's reading of \<open>fit\<close>, for comparison with the source: the columns at
  the sample indices are gathered and the solver is called on that subset.
\<close>

definition ExtractColumns :: "Mat \<Rightarrow> nat list \<Rightarrow> Mat" where
  "ExtractColumns A samples =
     \<lparr>rows = rows A, cols = length samples,
      coeff = (\<lambda>r j. if j < length samples then coeff A r (samples ! j) else 0)\<rparr>"

definition fit_gathering ::
  "(Mat \<Rightarrow> Vec) \<Rightarrow> (Mat3 \<Rightarrow> JacobiSVD) \<Rightarrow> EssentialKernel_spherical \<Rightarrow> nat list \<Rightarrow>
   Mat3Model list \<Rightarrow> Mat3Model list outcome" where
  "fit_gathering Nullspace JacobiSVD k samples models =
     solve Nullspace JacobiSVD (ExtractColumns (kernel_x1 k) samples)
       (ExtractColumns (kernel_x2 k) samples) models"

section \<open>TriangulateDLT\<close>

text \<open>The body of the loop that fills column \<open>i\<close> of the design matrix.\<close>

definition design_column :: "Mat34 \<Rightarrow> Vec3 \<Rightarrow> Mat34 \<Rightarrow> Vec3 \<Rightarrow> nat \<Rightarrow> Mat \<Rightarrow> Mat" where
  "design_column P1 x1 P2 x2 i design =
     (let design = set_coeff design 0 i (- c2 x1 * P1 1 i + c1 x1 * P1 2 i);
          design = set_coeff design 1 i (c2 x1 * P1 0 i - c0 x1 * P1 2 i);
          design = set_coeff design 2 i (- c1 x1 * P1 0 i + c0 x1 * P1 1 i);
          design = set_coeff design 3 i (- c2 x2 * P2 1 i + c1 x2 * P2 2 i);
          design = set_coeff design 4 i (c2 x2 * P2 0 i - c0 x2 * P2 2 i);
          design = set_coeff design 5 i (- c1 x2 * P2 0 i + c0 x2 * P2 1 i)
      in design)"

function TriangulateDLT_loop :: "Mat34 \<Rightarrow> Vec3 \<Rightarrow> Mat34 \<Rightarrow> Vec3 \<Rightarrow> nat \<Rightarrow> Mat \<Rightarrow> Mat" where
  "TriangulateDLT_loop P1 x1 P2 x2 i design =
     (if i < 4 then TriangulateDLT_loop P1 x1 P2 x2 (i + 1) (design_column P1 x1 P2 x2 i design)
      else design)"
  by pat_completeness auto
termination
  by (relation "measure (\<lambda>(P1, x1, P2, x2, i, d). 4 - i)") auto

definition TriangulateDLT_design :: "Mat34 \<Rightarrow> Vec3 \<Rightarrow> Mat34 \<Rightarrow> Vec3 \<Rightarrow> Mat" where
  "TriangulateDLT_design P1 x1 P2 x2 = TriangulateDLT_loop P1 x1 P2 x2 0 (new_Mat 6 4)"

text \<open>The homogeneous overload: what it leaves in \<open>X_homogeneous\<close>.\<close>

definition TriangulateDLT :: "(Mat \<Rightarrow> Vec) \<Rightarrow> Mat34 \<Rightarrow> Vec3 \<Rightarrow> Mat34 \<Rightarrow> Vec3 \<Rightarrow> Vec outcome" where
  "TriangulateDLT Nullspace P1 x1 P2 x2 = (None, Nullspace (TriangulateDLT_design P1 x1 P2 x2))"

text \<open>
  Modelled from the spec: \<open>homogeneousToEuclidean\<close> (aliceVision/numeric/projection) is
  not in the file; it "divides by the homogeneous (4th) coordinate to return a euclidean
  point" and, by the error-handling design, a zero coordinate is "not raised as an error
  by the core". Each coordinate of the result is a double; \<open>None\<close> is a non-finite one.
\<close>

type_synonym Vec3_double = "real option \<times> real option \<times> real option"

definition homogeneousToEuclidean :: "Vec \<Rightarrow> Vec3_double" where
  "homogeneousToEuclidean H = (let w = H 3 in (fdiv (H 0) w, fdiv (H 1) w, fdiv (H 2) w))"

definition TriangulateDLT_euclidean ::
  "(Mat \<Rightarrow> Vec) \<Rightarrow> Mat34 \<Rightarrow> Vec3 \<Rightarrow> Mat34 \<Rightarrow> Vec3 \<Rightarrow> Vec3_double outcome" where
  "TriangulateDLT_euclidean Nullspace P1 x1 P2 x2 =
     (case TriangulateDLT Nullspace P1 x1 P2 x2 of
        (Some err, X_homogeneous) \<Rightarrow> (Some err, homogeneousToEuclidean X_homogeneous)
      | (None, X_homogeneous) \<Rightarrow> (None, homogeneousToEuclidean X_homogeneous))"

definition cross3 :: "Vec3 \<Rightarrow> Vec3 \<Rightarrow> Vec3" where
  "cross3 a b =
     Vec3 (c1 a * c2 b - c2 a * c1 b) (c2 a * c0 b - c0 a * c2 b) (c0 a * c1 b - c1 a * c0 b)"

definition col34 :: "Mat34 \<Rightarrow> nat \<Rightarrow> Vec3" where
  "col34 P i = Vec3 (P 0 i) (P 1 i) (P 2 i)"

text \<open>Row \<open>r\<close>, column \<open>i\<close> of the two stacked cross products.\<close>

definition design_entry :: "Mat34 \<Rightarrow> Vec3 \<Rightarrow> Mat34 \<Rightarrow> Vec3 \<Rightarrow> nat \<Rightarrow> nat \<Rightarrow> real" where
  "design_entry P1 x1 P2 x2 r i =
     (if r = 0 then c0 (cross3 x1 (col34 P1 i))
      else if r = 1 then c1 (cross3 x1 (col34 P1 i))
      else if r = 2 then c2 (cross3 x1 (col34 P1 i))
      else if r = 3 then c0 (cross3 x2 (col34 P2 i))
      else if r = 4 then c1 (cross3 x2 (col34 P2 i))
      else c2 (cross3 x2 (col34 P2 i)))"

text \<open>
  The specification's reading of the design matrix, for comparison with the source: each
  camera contributes two of the three rows of its cross-product constraint and one row,
  whichever it is, is dropped. \<open>kept_rows k\<close> are the two rows that stay when row \<open>k\<close>
  is dropped; \<open>design_dropping\<close> is the system that drops row \<open>k1\<close> of the first
  constraint and row \<open>k2\<close> of the second.
\<close>

definition kept_rows :: "nat \<Rightarrow> nat \<times> nat" where
  "kept_rows k = (if k = 0 then (1, 2) else if k = 1 then (0, 2) else (0, 1))"

definition design_dropping :: "Mat34 \<Rightarrow> Vec3 \<Rightarrow> Mat34 \<Rightarrow> Vec3 \<Rightarrow> nat \<Rightarrow> nat \<Rightarrow> Mat" where
  "design_dropping P1 x1 P2 x2 k1 k2 =
     \<lparr>rows = 4, cols = 4,
      coeff = (\<lambda>r i.
        if 4 \<le> i then 0
        else if r = 0 then design_entry P1 x1 P2 x2 (fst (kept_rows k1)) i
        else if r = 1 then design_entry P1 x1 P2 x2 (snd (kept_rows k1)) i
        else if r = 2 then design_entry P1 x1 P2 x2 (3 + fst (kept_rows k2)) i
        else if r = 3 then design_entry P1 x1 P2 x2 (3 + snd (kept_rows k2)) i
        else 0)\<rparr>"

definition drops_a_row_per_camera :: "Mat \<Rightarrow> Mat34 \<Rightarrow> Vec3 \<Rightarrow> Mat34 \<Rightarrow> Vec3 \<Rightarrow> bool" where
  "drops_a_row_per_camera D P1 x1 P2 x2 = (\<exists>k1 k2. D = design_dropping P1 x1 P2 x2 k1 k2)"

section \<open>Concrete inputs\<close>

text \<open>
  Correspondences on the coordinate axes: column \<open>i\<close> of \<open>example_x1 n\<close> is the axis
  \<open>(i mod 8) mod 3\<close> and column \<open>i\<close> of \<open>example_x2 n\<close> the axis \<open>(i mod 8) div 3\<close>,
  so that the first eight pairs are all pairs of axes but (z, z) and the ninth repeats
  the first. Every row of the epipolar system then has a zero last coefficient, and the
  last coordinate vector is a right null vector of it.
\<close>

definition example_x1 :: "nat \<Rightarrow> Mat" where
  "example_x1 n = \<lparr>rows = 3, cols = n, coeff = (\<lambda>r i. if r = (i mod 8) mod 3 then 1 else 0)\<rparr>"

definition example_x2 :: "nat \<Rightarrow> Mat" where
  "example_x2 n = \<lparr>rows = 3, cols = n, coeff = (\<lambda>r i. if r = (i mod 8) div 3 then 1 else 0)\<rparr>"

definition example_kernel :: "nat \<Rightarrow> EssentialKernel_spherical" where
  "example_kernel n = \<lparr>kernel_x1 = example_x1 n, kernel_x2 = example_x2 n\<rparr>"

definition example_Nullspace :: "Mat \<Rightarrow> Vec" where
  "example_Nullspace A = (\<lambda>j. if j + 1 = cols A then 1 else 0)"

definition example_E :: Mat3 where
  "example_E = Mat3 (Vec3 0 0 0) (Vec3 0 0 0) (Vec3 0 0 1)"

definition example_P :: Mat3 where
  "example_P = Mat3 (Vec3 0 0 1) (Vec3 0 1 0) (Vec3 1 0 0)"

definition example_JacobiSVD :: "Mat3 \<Rightarrow> JacobiSVD" where
  "example_JacobiSVD E = \<lparr>matrixU = example_P, singularValues = Vec3 1 0 0, matrixV = example_P\<rparr>"

text \<open>
  Two cameras that differ by a translation along x: \<open>P1 = [I | 0]\<close> and
  \<open>P2 = [I | (1, 0, 0)]\<close>.
\<close>

definition example_P1 :: Mat34 where
  "example_P1 = (\<lambda>r i. if r = i \<and> r < 3 then 1 else 0)"

definition example_P2 :: Mat34 where
  "example_P2 = (\<lambda>r i. if (r = i \<and> r < 3) \<or> (r = 0 \<and> i = 3) then 1 else 0)"

definition example_Nullspace_z :: "Mat \<Rightarrow> Vec" where
  "example_Nullspace_z A = (\<lambda>j. if j = 2 then 1 else 0)"

text \<open>The essential matrix of a translation along x without rotation.\<close>

definition example_E_translation :: Mat3 where
  "example_E_translation = Mat3 (Vec3 0 0 0) (Vec3 0 0 (- 1)) (Vec3 0 1 0)"

definition example_planarCoords :: Mat where
  "example_planarCoords = \<lparr>rows = 2, cols = 1, coeff = (\<lambda>r i. 0)\<rparr>"

section \<open>Shape and coefficients of the matrices the loops build\<close>

lemma rows_set_coeff: "rows (set_coeff M r c v) = rows M"
  and cols_set_coeff: "cols (set_coeff M r c v) = cols M"
  and coeff_set_coeff:
    "coeff (set_coeff M r c v) r' c' = (if r' = r \<and> c' = c then v else coeff M r' c')"
  by (simp_all add: set_coeff_def)

lemma encode_row_shape:
  "rows (encode_row x1 x2 i A) = rows A" "cols (encode_row x1 x2 i A) = cols A"
  by (simp_all add: encode_row_def rows_set_coeff cols_set_coeff)

lemma encode_row_coeff:
  "coeff (encode_row x1 x2 i A) r j =
     (if r = i \<and> j < 9 then coeff x2 (j div 3) i * coeff x1 (j mod 3) i else coeff A r j)"
proof (cases "r = i \<and> j < 9")
  case True
  then have "j = 0 \<or> j = 1 \<or> j = 2 \<or> j = 3 \<or> j = 4 \<or> j = 5 \<or> j = 6 \<or> j = 7 \<or> j = 8"
    by arith
  with True show ?thesis
    by (elim disjE) (simp_all add: encode_row_def coeff_set_coeff)
next
  case False
  then show ?thesis
    by (auto simp add: encode_row_def coeff_set_coeff)
qed

lemma encode_loop_shape:
  "rows (encodeEpipolarEquation_loop x1 x2 i A) = rows A \<and>
   cols (encodeEpipolarEquation_loop x1 x2 i A) = cols A"
proof (induction x1 x2 i A rule: encodeEpipolarEquation_loop.induct)
  case (1 x1 x2 i A)
  show ?case
  proof (cases "i < cols x1")
    case True
    with 1 show ?thesis by (simp add: encode_row_shape)
  next
    case False
    then show ?thesis by simp
  qed
qed

lemma encode_loop_coeff:
  "coeff (encodeEpipolarEquation_loop x1 x2 i A) r j =
     (if i \<le> r \<and> r < cols x1 \<and> j < 9 then coeff x2 (j div 3) r * coeff x1 (j mod 3) r
      else coeff A r j)"
proof (induction x1 x2 i A rule: encodeEpipolarEquation_loop.induct)
  case (1 x1 x2 i A)
  show ?case
  proof (cases "i < cols x1")
    case True
    have "coeff (encodeEpipolarEquation_loop x1 x2 i A) r j =
          coeff (encodeEpipolarEquation_loop x1 x2 (i + 1) (encode_row x1 x2 i A)) r j"
      using True by simp
    also have "\<dots> = (if i + 1 \<le> r \<and> r < cols x1 \<and> j < 9 then coeff x2 (j div 3) r * coeff x1 (j mod 3) r
      else coeff (encode_row x1 x2 i A) r j)"
      using 1 True by simp
    finally show ?thesis
      using True by (auto simp add: encode_row_coeff simp del: encodeEpipolarEquation_loop.simps)
  next
    case False
    then show ?thesis by simp
  qed
qed

text \<open>
  Row \<open>r\<close> of the epipolar system holds the product \<open>x2(a, r) * x1(b, r)\<close> at column
  \<open>3 a + b\<close>: the outer product in the row-major order of the unknown matrix.
\<close>

lemma encodeEpipolarEquation_coeff:
  "coeff (encodeEpipolarEquation x1 x2 A) r j =
     (if r < cols x1 \<and> j < 9 then coeff x2 (j div 3) r * coeff x1 (j mod 3) r else coeff A r j)"
  by (simp add: encodeEpipolarEquation_def encode_loop_coeff del: encodeEpipolarEquation_loop.simps)

lemma encodeEpipolarEquation_shape:
  "rows (encodeEpipolarEquation x1 x2 A) = rows A" "cols (encodeEpipolarEquation x1 x2 A) = cols A"
  by (simp_all add: encodeEpipolarEquation_def encode_loop_shape del: encodeEpipolarEquation_loop.simps)

lemma design_column_shape:
  "rows (design_column P1 x1 P2 x2 i D) = rows D" "cols (design_column P1 x1 P2 x2 i D) = cols D"
  by (simp_all add: design_column_def rows_set_coeff cols_set_coeff)

lemma design_column_coeff:
  "coeff (design_column P1 x1 P2 x2 i D) r j =
     (if j = i \<and> r < 6 then design_entry P1 x1 P2 x2 r i else coeff D r j)"
proof (cases "j = i \<and> r < 6")
  case True
  then have "r = 0 \<or> r = 1 \<or> r = 2 \<or> r = 3 \<or> r = 4 \<or> r = 5"
    by arith
  with True show ?thesis
    by (elim disjE)
      (simp_all add: design_column_def coeff_set_coeff design_entry_def cross3_def col34_def)
next
  case False
  then show ?thesis
    by (auto simp add: design_column_def coeff_set_coeff)
qed

lemma TriangulateDLT_loop_shape:
  "rows (TriangulateDLT_loop P1 x1 P2 x2 i D) = rows D \<and>
   cols (TriangulateDLT_loop P1 x1 P2 x2 i D) = cols D"
proof (induction P1 x1 P2 x2 i D rule: TriangulateDLT_loop.induct)
  case (1 P1 x1 P2 x2 i D)
  show ?case
  proof (cases "i < 4")
    case True
    with 1 show ?thesis by (simp add: design_column_shape)
  next
    case False
    then show ?thesis by simp
  qed
qed

lemma TriangulateDLT_loop_coeff:
  "coeff (TriangulateDLT_loop P1 x1 P2 x2 i D) r j =
     (if i \<le> j \<and> j < 4 \<and> r < 6 then design_entry P1 x1 P2 x2 r j else coeff D r j)"
proof (induction P1 x1 P2 x2 i D rule: TriangulateDLT_loop.induct)
  case (1 P1 x1 P2 x2 i D)
  show ?case
  proof (cases "i < 4")
    case True
    have "coeff (TriangulateDLT_loop P1 x1 P2 x2 i D) r j =
          coeff (TriangulateDLT_loop P1 x1 P2 x2 (i + 1) (design_column P1 x1 P2 x2 i D)) r j"
      using True by simp
    also have "\<dots> = (if i + 1 \<le> j \<and> j < 4 \<and> r < 6 then design_entry P1 x1 P2 x2 r j
                      else coeff (design_column P1 x1 P2 x2 i D) r j)"
      using 1 True by simp
    finally show ?thesis
      using True by (auto simp add: design_column_coeff simp del: TriangulateDLT_loop.simps)
  next
    case False
    then show ?thesis by simp
  qed
qed

lemma TriangulateDLT_design_coeff:
  "coeff (TriangulateDLT_design P1 x1 P2 x2) r j =
     (if j < 4 \<and> r < 6 then design_entry P1 x1 P2 x2 r j else 0)"
  by (simp add: TriangulateDLT_design_def TriangulateDLT_loop_coeff new_Mat_def
      del: TriangulateDLT_loop.simps)

lemma TriangulateDLT_design_shape:
  "rows (TriangulateDLT_design P1 x1 P2 x2) = 6" "cols (TriangulateDLT_design P1 x1 P2 x2) = 4"
  by (simp_all add: TriangulateDLT_design_def TriangulateDLT_loop_shape new_Mat_def
      del: TriangulateDLT_loop.simps)

lemma set_col3_shape: "rows (set_col3 M i v) = rows M" "cols (set_col3 M i v) = cols M"
  by (simp_all add: set_col3_def rows_set_coeff cols_set_coeff)

lemma col3_set_col3: "col3 (set_col3 M i v) j = (if j = i then v else col3 M j)"
  by (simp add: set_col3_def col3_def coeff_set_coeff)

section \<open>Vectors and 3x3 matrices\<close>

lemma sum_lessThan_4: "(\<Sum>j<(4::nat). f j) = f 0 + f 1 + f 2 + (f 3 :: real)"
  by (simp add: eval_nat_numeral lessThan_Suc)

lemma sum_lessThan_6: "(\<Sum>j<(6::nat). f j) = f 0 + f 1 + f 2 + f 3 + f 4 + (f 5 :: real)"
  by (simp add: eval_nat_numeral lessThan_Suc)

lemma sum_lessThan_9:
  "(\<Sum>j<(9::nat). f j) = f 0 + f 1 + f 2 + f 3 + f 4 + f 5 + f 6 + f 7 + (f 8 :: real)"
  by (simp add: eval_nat_numeral lessThan_Suc)

lemma squaredNorm_nonneg: "0 \<le> squaredNorm v"
  by (simp add: squaredNorm_def dot3_def)

lemma squaredNorm_zero_iff: "squaredNorm v = 0 \<longleftrightarrow> v = Vec3 0 0 0"
proof
  assume z: "squaredNorm v = 0"
  have "c0 v * c0 v + (c1 v * c1 v + c2 v * c2 v) = 0"
    using z by (simp add: squaredNorm_def dot3_def)
  then have "c0 v = 0 \<and> c1 v = 0 \<and> c2 v = 0"
    by (metis add_nonneg_eq_0_iff add_nonneg_nonneg mult_eq_0_iff zero_le_square)
  then show "v = Vec3 0 0 0"
    by (cases v) simp
next
  assume "v = Vec3 0 0 0"
  then show "squaredNorm v = 0" by (simp add: squaredNorm_def dot3_def)
qed

lemma norm3_zero_iff: "norm3 v = 0 \<longleftrightarrow> v = Vec3 0 0 0"
  by (simp add: norm3_def squaredNorm_zero_iff)

lemma norm3_normalized:
  assumes "0 < squaredNorm v"
  shows "norm3 (normalized v) = 1"
proof -
  let ?z = "squaredNorm v"
  have s: "sqrt ?z * sqrt ?z = ?z"
    using assms by simp
  have "squaredNorm (normalized v) =
        (c0 v * c0 v + c1 v * c1 v + c2 v * c2 v) / (sqrt ?z * sqrt ?z)"
    using assms
    by (simp add: normalized_def Let_def add_divide_distrib)
       (simp add: squaredNorm_def dot3_def)
  also have "\<dots> = ?z / ?z"
    unfolding s by (simp add: squaredNorm_def dot3_def)
  also have "\<dots> = 1" using assms by simp
  finally show ?thesis by (simp add: norm3_def)
qed

lemma normalized_zero_iff: "normalized v = Vec3 0 0 0 \<longleftrightarrow> v = Vec3 0 0 0"
proof (cases "0 < squaredNorm v")
  case True
  then have "norm3 (normalized v) = 1" by (rule norm3_normalized)
  then have "normalized v \<noteq> Vec3 0 0 0"
    using norm3_zero_iff [of "normalized v"] by auto
  moreover have "v \<noteq> Vec3 0 0 0"
    using True squaredNorm_zero_iff [of v] by auto
  ultimately show ?thesis by simp
next
  case False
  then show ?thesis by (simp add: normalized_def)
qed

lemma lagrange_identity:
  "squaredNorm a * squaredNorm b - (dot3 a b)\<^sup>2 = squaredNorm (cross3 a b)"
  by (simp add: squaredNorm_def dot3_def cross3_def power2_eq_square algebra_simps)

lemma cauchy_schwarz3: "\<bar>dot3 a b\<bar> \<le> norm3 a * norm3 b"
proof -
  have "(dot3 a b)\<^sup>2 \<le> squaredNorm a * squaredNorm b"
    using lagrange_identity [of a b] squaredNorm_nonneg [of "cross3 a b"] by linarith
  also have "\<dots> = (norm3 a * norm3 b)\<^sup>2"
    by (simp add: norm3_def power_mult_distrib squaredNorm_nonneg)
  finally have "(dot3 a b)\<^sup>2 \<le> (norm3 a * norm3 b)\<^sup>2" .
  moreover have "0 \<le> norm3 a * norm3 b"
    by (simp add: norm3_def squaredNorm_nonneg)
  ultimately show ?thesis
    using abs_le_square_iff [of "dot3 a b" "norm3 a * norm3 b"] by simp
qed

lemma mat_mul_assoc: "mat_mul (mat_mul A B) C = mat_mul A (mat_mul B C)"
  by (simp add: mat_mul_def mat_vec_def transpose3_def dot3_def Let_def algebra_simps)

lemma mat_mul_Identity3: "mat_mul A Identity3 = A"
  by (cases A, rename_tac a b c, case_tac a, case_tac b, case_tac c)
     (simp add: mat_mul_def mat_vec_def transpose3_def dot3_def Let_def Identity3_def asDiagonal_def)

lemma svd_times_V:
  assumes "orthogonal3 V" and "E = mat_mul (mat_mul U D) (transpose3 V)"
  shows "mat_mul E V = mat_mul U D"
proof -
  have "mat_mul E V = mat_mul (mat_mul U D) (mat_mul (transpose3 V) V)"
    using assms(2) by (simp add: mat_mul_assoc)
  also have "\<dots> = mat_mul U D"
    using assms(1) by (simp add: orthogonal3_def mat_mul_Identity3)
  finally show ?thesis .
qed

lemma zero_singular_values:
  "mat_mul (mat_mul U (asDiagonal (Vec3 0 0 0))) V = Mat3 (Vec3 0 0 0) (Vec3 0 0 0) (Vec3 0 0 0)"
  by (simp add: mat_mul_def mat_vec_def transpose3_def dot3_def asDiagonal_def Let_def)

lemma unit_Map_RMat3_nonzero:
  assumes "unit_vec 9 e"
  shows "Map_RMat3 e \<noteq> Mat3 (Vec3 0 0 0) (Vec3 0 0 0) (Vec3 0 0 0)"
proof
  assume "Map_RMat3 e = Mat3 (Vec3 0 0 0) (Vec3 0 0 0) (Vec3 0 0 0)"
  then have "(\<Sum>j<(9::nat). (e j)\<^sup>2) = 0"
    by (simp add: Map_RMat3_def sum_lessThan_9)
  with assms show False by (simp add: unit_vec_def)
qed

lemma svd_positive:
  assumes "is_svd E USV" and "E \<noteq> Mat3 (Vec3 0 0 0) (Vec3 0 0 0) (Vec3 0 0 0)"
  shows "0 < (c0 (singularValues USV) + c1 (singularValues USV)) / 2"
proof (rule ccontr)
  assume n: "\<not> 0 < (c0 (singularValues USV) + c1 (singularValues USV)) / 2"
  have o: "c1 (singularValues USV) \<le> c0 (singularValues USV)"
    "c2 (singularValues USV) \<le> c1 (singularValues USV)" "0 \<le> c2 (singularValues USV)"
    using assms(1) by (simp_all add: is_svd_def)
  from n have "c0 (singularValues USV) + c1 (singularValues USV) \<le> 0"
    by simp
  with o have "c0 (singularValues USV) = 0 \<and> c1 (singularValues USV) = 0 \<and>
      c2 (singularValues USV) = 0"
    by auto
  then have "singularValues USV = Vec3 0 0 0"
    by (cases "singularValues USV") simp
  then have "E = Mat3 (Vec3 0 0 0) (Vec3 0 0 0) (Vec3 0 0 0)"
    using assms(1) by (simp add: is_svd_def zero_singular_values)
  with assms(2) show False by simp
qed

lemma projected_singular_values:
  assumes "is_svd E USV"
  shows "has_singular_values
           (mat_mul (mat_mul (matrixU USV)
              (asDiagonal (Vec3 ((c0 (singularValues USV) + c1 (singularValues USV)) / 2)
                                ((c0 (singularValues USV) + c1 (singularValues USV)) / 2) 0)))
              (transpose3 (matrixV USV)))
           (Vec3 ((c0 (singularValues USV) + c1 (singularValues USV)) / 2)
                 ((c0 (singularValues USV) + c1 (singularValues USV)) / 2) 0)"
  unfolding has_singular_values_def
  using assms
  by (intro exI [of _ "matrixU USV"] exI [of _ "matrixV USV"]) (simp add: is_svd_def)

lemma residual_nonneg: "0 \<le> residual A v"
  by (simp add: residual_def sum_nonneg)

lemma exact_null_vector:
  "unit_vec (cols A) e \<Longrightarrow> residual A e = 0 \<Longrightarrow> is_null_vector A e"
  by (simp add: is_null_vector_def residual_nonneg)

section \<open>Facts about the concrete inputs\<close>

text \<open>
  On the axis correspondences the last coordinate vector is a right null vector of the
  epipolar system, for any number of columns and also after gathering the first eight;
  \<open>example_JacobiSVD\<close> decomposes the matrix \<open>example_E\<close> it reshapes to. \<open>example_E\<close>
  has rank one and so lacks the essential-matrix structure, which the matrix of a pure
  translation has.
\<close>

lemma example_Nullspace_unit: "cols A = 9 \<Longrightarrow> unit_vec (cols A) (example_Nullspace A)"
  by (simp add: unit_vec_def example_Nullspace_def sum_lessThan_9)

lemma example_Nullspace_residual:
  "cols A = 9 \<Longrightarrow> residual A (example_Nullspace A) = (\<Sum>i<rows A. (coeff A i 8)\<^sup>2)"
  by (simp add: residual_def example_Nullspace_def sum_lessThan_9)

lemma example_Map_RMat3: "cols A = 9 \<Longrightarrow> Map_RMat3 (example_Nullspace A) = example_E"
  by (simp add: Map_RMat3_def example_Nullspace_def example_E_def)

lemma axes_aux: "m < 8 \<Longrightarrow> \<not> (2 = m div 3 \<and> 2 = m mod (3::nat))"
proof
  assume m: "m < 8" and h: "2 = m div 3 \<and> 2 = m mod (3::nat)"
  have "m = 3 * (m div 3) + m mod 3" by simp
  with h have "m = 8" by simp
  with m show False by simp
qed

lemma example_axes: "\<not> (2 = i mod 8 div 3 \<and> 2 = i mod 8 mod (3::nat))"
  by (rule axes_aux) simp

lemma example_exact_null:
  "unit_vec 9 (example_Nullspace (encodeEpipolarEquation (example_x1 n) (example_x2 n) (new_Mat n 9))) \<and>
   residual (encodeEpipolarEquation (example_x1 n) (example_x2 n) (new_Mat n 9))
     (example_Nullspace (encodeEpipolarEquation (example_x1 n) (example_x2 n) (new_Mat n 9))) = 0"
proof -
  let ?A = "encodeEpipolarEquation (example_x1 n) (example_x2 n) (new_Mat n 9)"
  have c: "cols ?A = 9" and r: "rows ?A = n"
    by (simp_all add: encodeEpipolarEquation_shape new_Mat_def)
  have "coeff ?A i 8 = 0" if "i < n" for i
    using that example_axes [of i]
    by (auto simp add: encodeEpipolarEquation_coeff example_x1_def example_x2_def)
  then have "residual ?A (example_Nullspace ?A) = 0"
    by (simp add: example_Nullspace_residual [OF c] r)
  then show ?thesis
    using example_Nullspace_unit [OF c] c by simp
qed

lemma example_null_vector:
  "is_null_vector (encodeEpipolarEquation (example_x1 n) (example_x2 n) (new_Mat n 9))
     (example_Nullspace (encodeEpipolarEquation (example_x1 n) (example_x2 n) (new_Mat n 9)))"
  using example_exact_null [of n]
  by (intro exact_null_vector) (simp_all add: encodeEpipolarEquation_shape new_Mat_def)

lemma example_exact_null_gathered:
  "unit_vec 9
     (example_Nullspace
       (encodeEpipolarEquation (ExtractColumns (example_x1 9) [0..<8])
          (ExtractColumns (example_x2 9) [0..<8]) (new_Mat 8 9))) \<and>
   residual
     (encodeEpipolarEquation (ExtractColumns (example_x1 9) [0..<8])
        (ExtractColumns (example_x2 9) [0..<8]) (new_Mat 8 9))
     (example_Nullspace
       (encodeEpipolarEquation (ExtractColumns (example_x1 9) [0..<8])
          (ExtractColumns (example_x2 9) [0..<8]) (new_Mat 8 9))) = 0"
proof -
  let ?A = "encodeEpipolarEquation (ExtractColumns (example_x1 9) [0..<8])
        (ExtractColumns (example_x2 9) [0..<8]) (new_Mat 8 9)"
  have c: "cols ?A = 9" and r: "rows ?A = 8"
    by (simp_all add: encodeEpipolarEquation_shape new_Mat_def)
  have "coeff ?A i 8 = 0" if "i < 8" for i
    using that example_axes [of i]
    by (auto simp add: encodeEpipolarEquation_coeff example_x1_def example_x2_def
        ExtractColumns_def)
  then have "residual ?A (example_Nullspace ?A) = 0"
    by (simp add: example_Nullspace_residual [OF c] r)
  then show ?thesis
    using example_Nullspace_unit [OF c] c by simp
qed

lemma example_is_svd: "is_svd example_E (example_JacobiSVD example_E)"
  by (simp add: is_svd_def orthogonal3_def mat_mul_def mat_vec_def transpose3_def dot3_def
      asDiagonal_def Identity3_def example_E_def example_JacobiSVD_def example_P_def Let_def)

lemma example_E_not_essential: "\<not> essential_structure example_E"
proof
  assume "essential_structure example_E"
  then obtain s U V where s: "0 < s" and U: "orthogonal3 U" and V: "orthogonal3 V"
    and E: "example_E = mat_mul (mat_mul U (asDiagonal (Vec3 s s 0))) (transpose3 V)"
    by (auto simp add: essential_structure_def has_singular_values_def is_svd_def)
  have EV: "mat_mul example_E V = mat_mul U (asDiagonal (Vec3 s s 0))"
    using svd_times_V [OF V E] .
  obtain a0 a1 a2 b0 b1 b2 d0 d1 d2 where Ueq: "U = Mat3 (Vec3 a0 a1 a2) (Vec3 b0 b1 b2) (Vec3 d0 d1 d2)"
    by (metis Mat3.exhaust Vec3.exhaust)
  have "a0 * s = 0" "a1 * s = 0" "b0 * s = 0" "b1 * s = 0"
    using EV unfolding Ueq
    by (auto simp add: mat_mul_def mat_vec_def transpose3_def dot3_def Let_def asDiagonal_def
        example_E_def)
  with s have z: "a0 = 0" "a1 = 0" "b0 = 0" "b1 = 0" by simp_all
  have "d0 * d0 = 1" "d1 * d1 = 1" "d0 * d1 = 0"
    using U unfolding Ueq orthogonal3_def
    by (simp_all add: mat_mul_def mat_vec_def transpose3_def dot3_def Let_def Identity3_def
        asDiagonal_def z)
  then show False by auto
qed

lemma example_E_translation_essential: "essential_structure example_E_translation"
proof -
  have "is_svd example_E_translation
     \<lparr>matrixU = Mat3 (Vec3 0 0 1) (Vec3 0 (- 1) 0) (Vec3 1 0 0),
      singularValues = Vec3 1 1 0,
      matrixV = Mat3 (Vec3 0 0 1) (Vec3 1 0 0) (Vec3 0 1 0)\<rparr>"
    by (simp add: is_svd_def orthogonal3_def mat_mul_def mat_vec_def transpose3_def dot3_def
        asDiagonal_def Identity3_def example_E_translation_def Let_def)
  then have "has_singular_values example_E_translation (Vec3 1 1 0)"
    unfolding has_singular_values_def by blast
  then show ?thesis
    unfolding essential_structure_def by (intro exI [of _ 1]) simp
qed

section \<open>Spherical projection\<close>

lemma spherical_direction_defined:
  assumes "0 < width" and "0 < height"
  shows "spherical_direction x y width height =
     Some (normalized
       (Vec3 (sin (y / real height * pi) * cos (pi * (2 * (x / real width) + 0.5)))
             (cos (y / real height * pi))
             (sin (y / real height * pi) * sin (pi * (2 * (x / real width) + 0.5)))))"
  using assms by (simp add: spherical_direction_def fdiv_def)

lemma sphere_sum_squares:
  fixes s c s' c' :: real
  shows "(s * c') * (s * c') + c * c + (s * s') * (s * s') = (s * s) * (c' * c' + s' * s') + c * c"
  by (simp add: algebra_simps)

lemma squaredNorm_sphere: "squaredNorm (Vec3 (sin a * cos b) (cos a) (sin a * sin b)) = 1"
proof -
  have "squaredNorm (Vec3 (sin a * cos b) (cos a) (sin a * sin b)) =
        (sin a * sin a) * (cos b * cos b + sin b * sin b) + cos a * cos a"
    unfolding squaredNorm_def dot3_def Vec3.sel by (rule sphere_sum_squares)
  also have "cos b * cos b + sin b * sin b = 1"
    using sin_cos_squared_add2 [of b] by (simp add: power2_eq_square)
  also have "(sin a * sin a) * 1 + cos a * cos a = 1"
    using sin_cos_squared_add [of a] by (simp add: power2_eq_square)
  finally show ?thesis .
qed

lemma planarToSpherical_loop_columns:
  assumes "0 < width" and "0 < height"
  shows "\<exists>S. planarToSpherical_loop planarCoords width height iCol sphericalCoords = Some S \<and>
           rows S = rows sphericalCoords \<and> cols S = cols sphericalCoords \<and>
           (\<forall>j. col3 S j =
              (if iCol \<le> j \<and> j < cols planarCoords
               then the (spherical_direction (coeff planarCoords 0 j) (coeff planarCoords 1 j)
                      width height)
               else col3 sphericalCoords j))"
  using assms
proof (induction planarCoords width height iCol sphericalCoords
    rule: planarToSpherical_loop.induct)
  case (1 planarCoords width height iCol sphericalCoords)
  show ?case
  proof (cases "iCol < cols planarCoords")
    case True
    obtain v where v: "spherical_direction (coeff planarCoords 0 iCol) (coeff planarCoords 1 iCol)
        width height = Some v"
      using spherical_direction_defined [OF 1(2) 1(3)] by blast
    from 1(1) [OF True v 1(2) 1(3)] obtain S where
      S: "planarToSpherical_loop planarCoords width height (iCol + 1)
            (set_col3 sphericalCoords iCol v) = Some S"
        "rows S = rows sphericalCoords" "cols S = cols sphericalCoords"
        "\<forall>j. col3 S j =
              (if iCol + 1 \<le> j \<and> j < cols planarCoords
               then the (spherical_direction (coeff planarCoords 0 j) (coeff planarCoords 1 j)
                      width height)
               else col3 (set_col3 sphericalCoords iCol v) j)"
      by (auto simp add: set_col3_shape)
    have "planarToSpherical_loop planarCoords width height iCol sphericalCoords = Some S"
      using True v S(1) by simp
    moreover have "col3 S j =
              (if iCol \<le> j \<and> j < cols planarCoords
               then the (spherical_direction (coeff planarCoords 0 j) (coeff planarCoords 1 j)
                      width height)
               else col3 sphericalCoords j)" for j
      using S(4) True v by (auto simp add: col3_set_col3)
    ultimately show ?thesis using S(2,3) by blast
  next
    case False
    then show ?thesis by auto
  qed
qed

text \<open>
  C8. For a positive width and height, \<open>planarToSpherical\<close> returns a 3xN matrix for
  every matrix of planar points; its column for the point \<open>(x, y)\<close> is the normalised
  vector \<open>(sin (v pi) cos (pi (2 u + 0.5)), cos (v pi), sin (v pi) sin (pi (2 u + 0.5)))\<close>
  with \<open>u = x / width\<close> and \<open>v = y / height\<close>, and has norm 1. No point is excluded, the
  poles included.
\<close>

theorem planarToSpherical_unit_directions:
  assumes "0 < width" and "0 < height" and "iCol < cols planarCoords"
  shows "\<exists>S. planarToSpherical planarCoords width height sphericalCoords = Some S \<and>
           rows S = 3 \<and> cols S = cols planarCoords \<and>
           col3 S iCol =
             normalized
               (Vec3 (sin (coeff planarCoords 1 iCol / real height * pi) *
                        cos (pi * (2 * (coeff planarCoords 0 iCol / real width) + 0.5)))
                     (cos (coeff planarCoords 1 iCol / real height * pi))
                     (sin (coeff planarCoords 1 iCol / real height * pi) *
                        sin (pi * (2 * (coeff planarCoords 0 iCol / real width) + 0.5)))) \<and>
           norm3 (col3 S iCol) = 1"
proof -
  obtain S where S: "planarToSpherical planarCoords width height sphericalCoords = Some S"
    "rows S = 3" "cols S = cols planarCoords"
    "col3 S iCol = the (spherical_direction (coeff planarCoords 0 iCol)
        (coeff planarCoords 1 iCol) width height)"
    using planarToSpherical_loop_columns [OF assms(1,2), of planarCoords 0
        "resize sphericalCoords 3 (cols planarCoords)"] assms(3)
    by (auto simp add: planarToSpherical_def resize_def)
  have d: "col3 S iCol = normalized
               (Vec3 (sin (coeff planarCoords 1 iCol / real height * pi) *
                        cos (pi * (2 * (coeff planarCoords 0 iCol / real width) + 0.5)))
                     (cos (coeff planarCoords 1 iCol / real height * pi))
                     (sin (coeff planarCoords 1 iCol / real height * pi) *
                        sin (pi * (2 * (coeff planarCoords 0 iCol / real width) + 0.5))))"
    using S(4) by (simp add: spherical_direction_defined [OF assms(1,2)])
  have "norm3 (col3 S iCol) = 1"
    unfolding d by (rule norm3_normalized) (simp add: squaredNorm_sphere)
  with S d show ?thesis by blast
qed

theorem planarToSpherical_unit_directions_witness:
  "(0::nat) < 4 \<and> (0::nat) < 2 \<and> 0 < cols example_planarCoords \<and>
   (\<exists>S. planarToSpherical example_planarCoords 4 2 (new_Mat 0 0) = Some S \<and>
      rows S = 3 \<and> cols S = 1 \<and> col3 S 0 = normalized (Vec3 0 1 0) \<and> norm3 (col3 S 0) = 1)"
  using planarToSpherical_unit_directions [of 4 2 0 example_planarCoords "new_Mat 0 0"]
  by (simp add: example_planarCoords_def)

section \<open>The eight-point solver\<close>

lemma solve_valid:
  assumes "3 = rows x1" and "8 \<le> cols x1" and "rows x2 = 3" and "cols x2 = cols x1"
  shows "solve Nullspace JacobiSVD x1 x2 models =
     (None, models @ [Mat3Model
        (let E = Map_RMat3 (Nullspace (encodeEpipolarEquation x1 x2 (new_Mat (cols x1) 9)))
         in if 8 < cols x1 then
              mat_mul (mat_mul (matrixU (JacobiSVD E))
                (asDiagonal (Vec3 ((c0 (singularValues (JacobiSVD E)) + c1 (singularValues (JacobiSVD E))) / 2)
                                  ((c0 (singularValues (JacobiSVD E)) + c1 (singularValues (JacobiSVD E))) / 2) 0)))
                (transpose3 (matrixV (JacobiSVD E)))
            else E)])"
  using assms by (simp add: solve_def Let_def)

lemma example_solve_8:
  "solve example_Nullspace example_JacobiSVD (example_x1 8) (example_x2 8) [] =
     (None, [Mat3Model example_E])"
proof -
  have "cols (encodeEpipolarEquation (example_x1 8) (example_x2 8) (new_Mat 8 9)) = 9"
    by (simp add: encodeEpipolarEquation_shape new_Mat_def)
  then have "Map_RMat3 (example_Nullspace (encodeEpipolarEquation (example_x1 8) (example_x2 8) (new_Mat 8 9))) = example_E"
    by (rule example_Map_RMat3)
  moreover have "cols (example_x1 8) = 8" "rows (example_x1 8) = 3" "rows (example_x2 8) = 3"
    "cols (example_x2 8) = 8"
    by (simp_all add: example_x1_def example_x2_def)
  ultimately show ?thesis
    by (simp add: solve_valid)
qed

lemma example_solve_9:
  "solve example_Nullspace example_JacobiSVD (example_x1 9) (example_x2 9) [] =
     (None, [Mat3Model (Mat3 (Vec3 0 0 0) (Vec3 0 (1 / 2) 0) (Vec3 0 0 (1 / 2)))])"
proof -
  have "cols (encodeEpipolarEquation (example_x1 9) (example_x2 9) (new_Mat 9 9)) = 9"
    by (simp add: encodeEpipolarEquation_shape new_Mat_def)
  then have "Map_RMat3 (example_Nullspace (encodeEpipolarEquation (example_x1 9) (example_x2 9) (new_Mat 9 9))) = example_E"
    by (rule example_Map_RMat3)
  moreover have "cols (example_x1 9) = 9" "rows (example_x1 9) = 3" "rows (example_x2 9) = 3"
    "cols (example_x2 9) = 9"
    by (simp_all add: example_x1_def example_x2_def)
  ultimately show ?thesis
    by (simp add: solve_valid example_JacobiSVD_def example_P_def mat_mul_def mat_vec_def
        transpose3_def dot3_def asDiagonal_def Let_def)
qed

lemma example_solve_gathered:
  "solve example_Nullspace example_JacobiSVD (ExtractColumns (example_x1 9) [0..<8])
     (ExtractColumns (example_x2 9) [0..<8]) [] = (None, [Mat3Model example_E])"
proof -
  let ?x1 = "ExtractColumns (example_x1 9) [0..<8]" and ?x2 = "ExtractColumns (example_x2 9) [0..<8]"
  have s: "cols ?x1 = 8" "rows ?x1 = 3" "rows ?x2 = 3" "cols ?x2 = 8"
    by (simp_all add: example_x1_def example_x2_def ExtractColumns_def)
  have "cols (encodeEpipolarEquation ?x1 ?x2 (new_Mat 8 9)) = 9"
    by (simp add: encodeEpipolarEquation_shape new_Mat_def)
  then have "Map_RMat3 (example_Nullspace (encodeEpipolarEquation ?x1 ?x2 (new_Mat 8 9))) = example_E"
    by (rule example_Map_RMat3)
  then show ?thesis
    using s by (simp add: solve_valid)
qed

text \<open>
  C5. The solver reports a minimum sample size of 8 and a maximum model count of 1, and
  on two aligned 3xN matrices with N at least 8 the unweighted \<open>solve\<close> returns
  normally with exactly one model appended to \<open>models\<close>.
\<close>

theorem solve_appends_one_model:
  assumes "3 = rows x1" and "8 \<le> cols x1" and "rows x2 = 3" and "cols x2 = cols x1"
  shows "getMinimumNbRequiredSamples = 8 \<and> getMaximumNbModels = 1 \<and>
         (\<exists>E. solve Nullspace JacobiSVD x1 x2 models = (None, models @ [E]))"
  using assms
  by (simp add: getMinimumNbRequiredSamples_def getMaximumNbModels_def solve_def Let_def)

theorem solve_appends_one_model_witness:
  "3 = rows (example_x1 8) \<and> 8 \<le> cols (example_x1 8) \<and> rows (example_x2 8) = 3 \<and>
   cols (example_x2 8) = cols (example_x1 8) \<and>
   getMinimumNbRequiredSamples = 8 \<and> getMaximumNbModels = 1 \<and>
   (\<exists>E. solve example_Nullspace example_JacobiSVD (example_x1 8) (example_x2 8) [] =
          (None, [] @ [E]))"
  using solve_appends_one_model
    [of "example_x1 8" "example_x2 8" example_Nullspace example_JacobiSVD "[]"]
  by (simp add: example_x1_def example_x2_def getMinimumNbRequiredSamples_def
      getMaximumNbModels_def)

text \<open>
  C6. Whatever \<open>x1\<close>, \<open>x2\<close> and the weights are, the weighted overload of \<open>solve\<close>
  fails with a \<open>std::logic_error\<close> and leaves \<open>models\<close> as it was.
\<close>

theorem solve_weighted_unsupported:
  "(\<exists>msg. fst (solve_weighted x1 x2 models weights) = Some (LogicError msg)) \<and>
   snd (solve_weighted x1 x2 models weights) = models"
  by (simp add: solve_weighted_def)

text \<open>
  C4. On a valid input \<open>solve\<close> replaces the singular values of \<open>E\<close> by
  \<open>((d0 + d1) / 2, (d0 + d1) / 2, 0)\<close> and returns \<open>U D' V\<^sup>T\<close> exactly when there are more
  than 8 correspondences; with 8 it returns \<open>E\<close> as reshaped from the null vector. When
  \<open>JacobiSVD\<close> has decomposed \<open>E\<close>, the model returned for more than 8 correspondences has
  singular values \<open>(s, s, 0)\<close>: the first two equal, the third zero.
\<close>

theorem solve_manifold_projection:
  assumes "3 = rows x1" and "8 \<le> cols x1" and "rows x2 = 3" and "cols x2 = cols x1"
  shows "let E = Map_RMat3 (Nullspace (encodeEpipolarEquation x1 x2 (new_Mat (cols x1) 9)));
             USV = JacobiSVD E;
             s = (c0 (singularValues USV) + c1 (singularValues USV)) / 2;
             E' = mat_mul (mat_mul (matrixU USV) (asDiagonal (Vec3 s s 0)))
                    (transpose3 (matrixV USV))
         in if 8 < cols x1
            then solve Nullspace JacobiSVD x1 x2 models = (None, models @ [Mat3Model E']) \<and>
                 (is_svd E USV \<longrightarrow> has_singular_values E' (Vec3 s s 0))
            else solve Nullspace JacobiSVD x1 x2 models = (None, models @ [Mat3Model E])"
  using assms
  by (simp add: solve_valid Let_def projected_singular_values)

theorem solve_manifold_projection_witness:
  "3 = rows (example_x1 9) \<and> 8 \<le> cols (example_x1 9) \<and> rows (example_x2 9) = 3 \<and>
   cols (example_x2 9) = cols (example_x1 9) \<and> 8 < cols (example_x1 9) \<and>
   is_svd example_E (example_JacobiSVD example_E) \<and>
   solve example_Nullspace example_JacobiSVD (example_x1 9) (example_x2 9) [] =
     (None, [Mat3Model (Mat3 (Vec3 0 0 0) (Vec3 0 (1 / 2) 0) (Vec3 0 0 (1 / 2)))]) \<and>
   has_singular_values (Mat3 (Vec3 0 0 0) (Vec3 0 (1 / 2) 0) (Vec3 0 0 (1 / 2)))
     (Vec3 (1 / 2) (1 / 2) 0)"
proof -
  have c: "cols (encodeEpipolarEquation (example_x1 9) (example_x2 9) (new_Mat 9 9)) = 9"
    by (simp add: encodeEpipolarEquation_shape new_Mat_def)
  have s: "3 = rows (example_x1 9)" "8 \<le> cols (example_x1 9)" "rows (example_x2 9) = 3"
    "cols (example_x2 9) = cols (example_x1 9)" "cols (example_x1 9) = 9"
    by (simp_all add: example_x1_def example_x2_def)
  show ?thesis
    using solve_manifold_projection [OF s(1-4), of example_Nullspace example_JacobiSVD "[]"]
      example_is_svd s
    by (simp add: Let_def example_Map_RMat3 [OF c] example_JacobiSVD_def example_P_def
        mat_mul_def mat_vec_def transpose3_def dot3_def asDiagonal_def)
qed

text \<open>
  C3 as stated fails at the minimal sample. The eight axis correspondences are a valid
  input, the last coordinate vector is a right null vector of their system, and \<open>solve\<close>
  returns the matrix reshaped from it untouched: a matrix of rank one, with a single
  nonzero singular value.
\<close>

theorem solve_minimal_sample_not_essential:
  "3 = rows (example_x1 8) \<and> 8 \<le> cols (example_x1 8) \<and> rows (example_x2 8) = 3 \<and>
   cols (example_x2 8) = cols (example_x1 8) \<and>
   is_null_vector (encodeEpipolarEquation (example_x1 8) (example_x2 8) (new_Mat 8 9))
     (example_Nullspace (encodeEpipolarEquation (example_x1 8) (example_x2 8) (new_Mat 8 9))) \<and>
   solve example_Nullspace example_JacobiSVD (example_x1 8) (example_x2 8) [] =
     (None, [Mat3Model example_E]) \<and>
   \<not> essential_structure example_E"
  using example_null_vector [of 8] example_solve_8 example_E_not_essential
  by (simp add: example_x1_def example_x2_def)

text \<open>
  C3, as amended. On a valid input with more than 8 correspondences, when \<open>Nullspace\<close>
  returns a right null vector of the system and \<open>JacobiSVD\<close> a decomposition of the
  reshaped matrix, the model returned has two equal nonzero singular values and one zero.
  With exactly 8 correspondences nothing is enforced: the model is the reshaped null
  vector.
\<close>

theorem solve_essential_structure:
  assumes "3 = rows x1" and "8 \<le> cols x1" and "rows x2 = 3" and "cols x2 = cols x1"
    and "is_null_vector (encodeEpipolarEquation x1 x2 (new_Mat (cols x1) 9))
           (Nullspace (encodeEpipolarEquation x1 x2 (new_Mat (cols x1) 9)))"
    and "is_svd (Map_RMat3 (Nullspace (encodeEpipolarEquation x1 x2 (new_Mat (cols x1) 9))))
           (JacobiSVD (Map_RMat3 (Nullspace (encodeEpipolarEquation x1 x2 (new_Mat (cols x1) 9)))))"
  shows "\<exists>E'. solve Nullspace JacobiSVD x1 x2 models = (None, models @ [Mat3Model E']) \<and>
           (if 8 < cols x1 then essential_structure E'
            else E' = Map_RMat3 (Nullspace (encodeEpipolarEquation x1 x2 (new_Mat (cols x1) 9))))"
proof (cases "8 < cols x1")
  case True
  let ?A = "encodeEpipolarEquation x1 x2 (new_Mat (cols x1) 9)"
  let ?E = "Map_RMat3 (Nullspace ?A)"
  let ?USV = "JacobiSVD ?E"
  let ?s = "(c0 (singularValues ?USV) + c1 (singularValues ?USV)) / 2"
  let ?E' = "mat_mul (mat_mul (matrixU ?USV) (asDiagonal (Vec3 ?s ?s 0)))
               (transpose3 (matrixV ?USV))"
  have "cols ?A = 9"
    by (simp add: encodeEpipolarEquation_shape new_Mat_def)
  with assms(5) have "unit_vec 9 (Nullspace ?A)"
    by (simp add: is_null_vector_def)
  then have "?E \<noteq> Mat3 (Vec3 0 0 0) (Vec3 0 0 0) (Vec3 0 0 0)"
    by (rule unit_Map_RMat3_nonzero)
  with assms(6) have "0 < ?s" by (rule svd_positive)
  moreover have "has_singular_values ?E' (Vec3 ?s ?s 0)"
    using assms(6) by (rule projected_singular_values)
  ultimately have "essential_structure ?E'"
    unfolding essential_structure_def by blast
  moreover have "solve Nullspace JacobiSVD x1 x2 models = (None, models @ [Mat3Model ?E'])"
    using assms(1-4) True by (simp add: solve_valid Let_def)
  ultimately show ?thesis using True by simp
next
  case False
  then show ?thesis
    using assms(1-4) by (simp add: solve_valid Let_def)
qed

theorem solve_essential_structure_witness:
  "3 = rows (example_x1 9) \<and> 8 \<le> cols (example_x1 9) \<and> rows (example_x2 9) = 3 \<and>
   cols (example_x2 9) = cols (example_x1 9) \<and> 8 < cols (example_x1 9) \<and>
   is_null_vector (encodeEpipolarEquation (example_x1 9) (example_x2 9) (new_Mat 9 9))
     (example_Nullspace (encodeEpipolarEquation (example_x1 9) (example_x2 9) (new_Mat 9 9))) \<and>
   is_svd example_E (example_JacobiSVD example_E) \<and>
   (\<exists>E'. solve example_Nullspace example_JacobiSVD (example_x1 9) (example_x2 9) [] =
            (None, [] @ [Mat3Model E']) \<and> essential_structure E')"
proof -
  have c: "cols (encodeEpipolarEquation (example_x1 9) (example_x2 9) (new_Mat 9 9)) = 9"
    by (simp add: encodeEpipolarEquation_shape new_Mat_def)
  have s: "3 = rows (example_x1 9)" "8 \<le> cols (example_x1 9)" "rows (example_x2 9) = 3"
    "cols (example_x2 9) = cols (example_x1 9)" "cols (example_x1 9) = 9"
    by (simp_all add: example_x1_def example_x2_def)
  have n: "is_null_vector (encodeEpipolarEquation (example_x1 9) (example_x2 9) (new_Mat (cols (example_x1 9)) 9))
     (example_Nullspace (encodeEpipolarEquation (example_x1 9) (example_x2 9) (new_Mat (cols (example_x1 9)) 9)))"
    using example_null_vector [of 9] s(5) by simp
  have v: "is_svd (Map_RMat3 (example_Nullspace (encodeEpipolarEquation (example_x1 9) (example_x2 9) (new_Mat (cols (example_x1 9)) 9))))
           (example_JacobiSVD (Map_RMat3 (example_Nullspace (encodeEpipolarEquation (example_x1 9) (example_x2 9) (new_Mat (cols (example_x1 9)) 9)))))"
    using example_is_svd c by (simp add: s(5) example_Map_RMat3)
  show ?thesis
    using solve_essential_structure
        [of "example_x1 9" "example_x2 9" example_Nullspace example_JacobiSVD "[]"]
      n v example_null_vector [of 9] example_is_svd s
    by simp
qed

section \<open>The angular error\<close>

text \<open>
  Where the image \<open>model * x1\<close> and \<open>x2\<close> are not zero the error is the absolute arcsine
  of the normalised product and lies between 0 and \<open>pi / 2\<close>; it is NaN exactly where one
  of them is zero.
\<close>

lemma AngularError_error_range:
  assumes "x2 \<noteq> Vec3 0 0 0" and "mat_vec (getMatrix model) x1 \<noteq> Vec3 0 0 0"
  shows "\<exists>r. AngularError_error model x1 x2 = Some r \<and>
           r = \<bar>arcsin (dot3 x2 (normalized (mat_vec (getMatrix model) x1)) /
                  (norm3 x2 * norm3 (normalized (mat_vec (getMatrix model) x1))))\<bar> \<and>
           0 \<le> r \<and> r \<le> pi / 2"
proof -
  let ?Em1 = "normalized (mat_vec (getMatrix model) x1)"
  let ?n = "norm3 x2 * norm3 ?Em1"
  let ?a = "dot3 x2 ?Em1 / ?n"
  have n0: "?n \<noteq> 0"
    using assms by (simp add: norm3_zero_iff normalized_zero_iff)
  have npos: "0 < ?n"
    using n0 by (simp add: norm3_def squaredNorm_nonneg less_le zero_le_mult_iff)
  have "\<bar>dot3 x2 ?Em1\<bar> \<le> ?n" by (rule cauchy_schwarz3)
  then have a: "- 1 \<le> ?a" "?a \<le> 1"
    using npos by (simp_all add: field_simps abs_le_iff)
  have e: "AngularError_error model x1 x2 = Some \<bar>arcsin ?a\<bar>"
    using n0 a by (simp add: AngularError_error_def Let_def fdiv_def)
  have "- (pi / 2) \<le> arcsin ?a" "arcsin ?a \<le> pi / 2"
    using arcsin_bounded [OF a] by simp_all
  then have "0 \<le> \<bar>arcsin ?a\<bar>" "\<bar>arcsin ?a\<bar> \<le> pi / 2"
    by (simp_all add: abs_le_iff)
  with e show ?thesis by blast
qed

lemma AngularError_error_NaN:
  "AngularError_error model x1 x2 = None \<longleftrightarrow>
     x2 = Vec3 0 0 0 \<or> mat_vec (getMatrix model) x1 = Vec3 0 0 0"
proof (cases "x2 = Vec3 0 0 0 \<or> mat_vec (getMatrix model) x1 = Vec3 0 0 0")
  case True
  then have "norm3 x2 * norm3 (normalized (mat_vec (getMatrix model) x1)) = 0"
    by (auto simp add: norm3_zero_iff normalized_zero_iff)
  then show ?thesis
    using True by (simp add: AngularError_error_def Let_def fdiv_def)
next
  case False
  then show ?thesis
    using AngularError_error_range [of x2 model x1] by auto
qed

text \<open>
  C7 at the epipole. The matrix of a translation along x has the essential-matrix
  structure; the unit vector \<open>(1, 0, 0)\<close> is its right null vector, the direction of the
  other camera. There \<open>model * x1\<close> is zero, the quotient is 0 / 0 and the error returned
  is NaN, not a number of \<open>[0, pi / 2]\<close>.
\<close>

theorem AngularError_error_at_epipole:
  "essential_structure example_E_translation \<and>
   norm3 (Vec3 1 0 0) = 1 \<and>
   AngularError_error (Mat3Model example_E_translation) (Vec3 1 0 0) (Vec3 1 0 0) = None"
proof -
  have "norm3 (Vec3 1 0 0) = 1"
    by (simp add: norm3_def squaredNorm_def dot3_def)
  moreover have "AngularError_error (Mat3Model example_E_translation) (Vec3 1 0 0) (Vec3 1 0 0) = None"
    by (simp add: AngularError_error_def Let_def fdiv_def mat_vec_def dot3_def
        example_E_translation_def normalized_def squaredNorm_def norm3_def)
  ultimately show ?thesis
    using example_E_translation_essential by simp
qed

section \<open>The kernel\<close>

text \<open>
  \<open>fit\<close> never reads its sample indices: it is \<open>solve\<close> on the stored matrices.
\<close>

lemma fit_is_solve_on_stored:
  "fit Nullspace JacobiSVD k samples models =
     solve Nullspace JacobiSVD (kernel_x1 k) (kernel_x2 k) models"
  by (simp add: fit_def solve_def KernelBase_getMinimumNbRequiredSamples_def
      getMinimumNbRequiredSamples_def)

text \<open>
  C1 at nine stored correspondences and the sample \<open>[0, ..., 7]\<close>. The last coordinate
  vector has unit norm and is sent to zero by both systems involved, and
  \<open>example_JacobiSVD\<close> decomposes the matrix it is given. \<open>fit\<close> hands the solver all
  nine columns; the solver takes the over-determined branch and returns
  \<open>diag (0, 1/2, 1/2)\<close>. Gathering the eight sampled columns first and solving, as the
  claim describes, returns \<open>diag (0, 0, 1)\<close>.
\<close>

theorem fit_ignores_samples:
  "unit_vec 9
     (example_Nullspace (encodeEpipolarEquation (example_x1 9) (example_x2 9) (new_Mat 9 9))) \<and>
   residual (encodeEpipolarEquation (example_x1 9) (example_x2 9) (new_Mat 9 9))
     (example_Nullspace (encodeEpipolarEquation (example_x1 9) (example_x2 9) (new_Mat 9 9))) = 0 \<and>
   unit_vec 9
     (example_Nullspace
       (encodeEpipolarEquation (ExtractColumns (example_x1 9) [0..<8])
          (ExtractColumns (example_x2 9) [0..<8]) (new_Mat 8 9))) \<and>
   residual
     (encodeEpipolarEquation (ExtractColumns (example_x1 9) [0..<8])
        (ExtractColumns (example_x2 9) [0..<8]) (new_Mat 8 9))
     (example_Nullspace
       (encodeEpipolarEquation (ExtractColumns (example_x1 9) [0..<8])
          (ExtractColumns (example_x2 9) [0..<8]) (new_Mat 8 9))) = 0 \<and>
   is_svd example_E (example_JacobiSVD example_E) \<and>
   fit example_Nullspace example_JacobiSVD (example_kernel 9) [0..<8] [] =
     (None, [Mat3Model (Mat3 (Vec3 0 0 0) (Vec3 0 (1 / 2) 0) (Vec3 0 0 (1 / 2)))]) \<and>
   fit_gathering example_Nullspace example_JacobiSVD (example_kernel 9) [0..<8] [] =
     (None, [Mat3Model (Mat3 (Vec3 0 0 0) (Vec3 0 0 0) (Vec3 0 0 1))]) \<and>
   fit example_Nullspace example_JacobiSVD (example_kernel 9) [0..<8] [] =
     solve example_Nullspace example_JacobiSVD (example_x1 9) (example_x2 9) []"
proof -
  have "fit example_Nullspace example_JacobiSVD (example_kernel 9) [0..<8] [] =
     solve example_Nullspace example_JacobiSVD (example_x1 9) (example_x2 9) []"
    by (simp add: fit_is_solve_on_stored example_kernel_def)
  moreover have "fit_gathering example_Nullspace example_JacobiSVD (example_kernel 9) [0..<8] [] =
     (None, [Mat3Model (Mat3 (Vec3 0 0 0) (Vec3 0 0 0) (Vec3 0 0 1))])"
    using example_solve_gathered
    by (simp add: fit_gathering_def example_kernel_def example_E_def)
  ultimately show ?thesis
    using example_exact_null [of 9] example_exact_null_gathered example_is_svd example_solve_9
    by simp
qed

text \<open>
  C10. The assertions of \<open>fit\<close> read the stored correspondence matrices, not the sample
  indices: when the stored matrices are 3xN, aligned, with N at least 8, \<open>fit\<close> raises no
  assertion failure for any list of sample indices, however short.
\<close>

theorem fit_checks_stored_set:
  assumes "rows (kernel_x1 k) = 3" and "rows (kernel_x2 k) = 3"
    and "8 \<le> cols (kernel_x1 k)" and "cols (kernel_x2 k) = cols (kernel_x1 k)"
  shows "fst (fit Nullspace JacobiSVD k samples models) = None"
  using assms
  by (simp add: fit_def solve_def Let_def KernelBase_getMinimumNbRequiredSamples_def
      getMinimumNbRequiredSamples_def)

theorem fit_checks_stored_set_witness:
  "rows (kernel_x1 (example_kernel 8)) = 3 \<and> rows (kernel_x2 (example_kernel 8)) = 3 \<and>
   8 \<le> cols (kernel_x1 (example_kernel 8)) \<and>
   cols (kernel_x2 (example_kernel 8)) = cols (kernel_x1 (example_kernel 8)) \<and>
   fst (fit example_Nullspace example_JacobiSVD (example_kernel 8) [0] []) = None"
  using fit_checks_stored_set
    [of "example_kernel 8" example_Nullspace example_JacobiSVD "[0]" "[]"]
  by (simp add: example_kernel_def example_x1_def example_x2_def)

text \<open>
  Conversely the assertion on the minimum sample count is there and reads the stored
  set: with fewer than 8 stored correspondences \<open>fit\<close> fails for every sample list.
\<close>

lemma fit_asserts_on_stored_set:
  assumes "cols (kernel_x1 k) < 8"
  shows "fit Nullspace JacobiSVD k samples models = (Some AssertionFailure, models)"
  using assms
  by (simp add: fit_def solve_def KernelBase_getMinimumNbRequiredSamples_def
      getMinimumNbRequiredSamples_def)

section \<open>Triangulation\<close>

text \<open>
  Two parallel rays along z from cameras one unit apart along x: the point at infinity
  \<open>(0, 0, 1, 0)\<close> is a right null vector of the design matrix.
\<close>

lemma parallel_rays_null_vector:
  "is_null_vector (TriangulateDLT_design example_P1 (Vec3 0 0 1) example_P2 (Vec3 0 0 1))
     (example_Nullspace_z (TriangulateDLT_design example_P1 (Vec3 0 0 1) example_P2 (Vec3 0 0 1)))"
proof -
  let ?D = "TriangulateDLT_design example_P1 (Vec3 0 0 1) example_P2 (Vec3 0 0 1)"
  have u: "unit_vec (cols ?D) (example_Nullspace_z ?D)"
    by (simp add: unit_vec_def TriangulateDLT_design_shape sum_lessThan_4 example_Nullspace_z_def)
  have z: "residual ?D (example_Nullspace_z ?D) = 0"
    by (simp add: residual_def TriangulateDLT_design_shape TriangulateDLT_design_coeff
        sum_lessThan_4 sum_lessThan_6 design_entry_def cross3_def col34_def
        example_P1_def example_P2_def example_Nullspace_z_def)
  show ?thesis using u z by (rule exact_null_vector)
qed

text \<open>
  C2, as amended. The design matrix is 6x4 and consists, for each camera, of all three
  rows of the cross-product constraint, none dropped: for every column \<open>i\<close>, rows 0 to 2
  are the cross product of \<open>x1\<close> with column \<open>i\<close> of \<open>P1\<close> and rows 3 to 5 that of \<open>x2\<close>
  with column \<open>i\<close> of \<open>P2\<close>. When \<open>Nullspace\<close> returns a right null vector of the matrix
  it is given, the homogeneous overload returns normally and the point it returns is a
  right null vector of that system.
\<close>

theorem TriangulateDLT_null_vector_of_cross_products:
  assumes "i < 4"
    and "is_null_vector (TriangulateDLT_design P1 x1 P2 x2)
           (Nullspace (TriangulateDLT_design P1 x1 P2 x2))"
  shows "rows (TriangulateDLT_design P1 x1 P2 x2) = 6 \<and>
         cols (TriangulateDLT_design P1 x1 P2 x2) = 4 \<and>
         Vec3 (coeff (TriangulateDLT_design P1 x1 P2 x2) 0 i)
              (coeff (TriangulateDLT_design P1 x1 P2 x2) 1 i)
              (coeff (TriangulateDLT_design P1 x1 P2 x2) 2 i) = cross3 x1 (col34 P1 i) \<and>
         Vec3 (coeff (TriangulateDLT_design P1 x1 P2 x2) 3 i)
              (coeff (TriangulateDLT_design P1 x1 P2 x2) 4 i)
              (coeff (TriangulateDLT_design P1 x1 P2 x2) 5 i) = cross3 x2 (col34 P2 i) \<and>
         (\<exists>X. TriangulateDLT Nullspace P1 x1 P2 x2 = (None, X) \<and>
              is_null_vector (TriangulateDLT_design P1 x1 P2 x2) X)"
  using assms
  by (simp add: TriangulateDLT_design_shape TriangulateDLT_design_coeff design_entry_def
      TriangulateDLT_def cross3_def)

theorem TriangulateDLT_null_vector_of_cross_products_witness:
  "(1::nat) < 4 \<and>
   is_null_vector (TriangulateDLT_design example_P1 (Vec3 0 0 1) example_P2 (Vec3 0 0 1))
     (example_Nullspace_z (TriangulateDLT_design example_P1 (Vec3 0 0 1) example_P2 (Vec3 0 0 1))) \<and>
   rows (TriangulateDLT_design example_P1 (Vec3 0 0 1) example_P2 (Vec3 0 0 1)) = 6 \<and>
   Vec3 (coeff (TriangulateDLT_design example_P1 (Vec3 0 0 1) example_P2 (Vec3 0 0 1)) 0 1)
        (coeff (TriangulateDLT_design example_P1 (Vec3 0 0 1) example_P2 (Vec3 0 0 1)) 1 1)
        (coeff (TriangulateDLT_design example_P1 (Vec3 0 0 1) example_P2 (Vec3 0 0 1)) 2 1) =
     Vec3 (- 1) 0 0 \<and>
   (\<exists>X. TriangulateDLT example_Nullspace_z example_P1 (Vec3 0 0 1) example_P2 (Vec3 0 0 1) =
          (None, X) \<and>
        X 0 = 0 \<and> X 1 = 0 \<and> X 2 = 1 \<and> X 3 = 0 \<and>
        is_null_vector (TriangulateDLT_design example_P1 (Vec3 0 0 1) example_P2 (Vec3 0 0 1)) X)"
proof -
  have "TriangulateDLT example_Nullspace_z example_P1 (Vec3 0 0 1) example_P2 (Vec3 0 0 1) =
      (None, example_Nullspace_z
         (TriangulateDLT_design example_P1 (Vec3 0 0 1) example_P2 (Vec3 0 0 1)))"
    by (simp add: TriangulateDLT_def)
  then show ?thesis
    using TriangulateDLT_null_vector_of_cross_products
      [of 1 example_P1 "Vec3 0 0 1" example_P2 "Vec3 0 0 1" example_Nullspace_z]
      parallel_rays_null_vector
    by (simp add: cross3_def col34_def example_P1_def example_Nullspace_z_def)
qed

text \<open>
  C2 as stated fails. For \<open>x1 = x2 = (1, 0, 0)\<close> and the example cameras the system the
  code builds is none of the systems that drop a row of each constraint, whichever row
  that is: it has six rows. All three rows of each constraint are there: row 0, which is
  identically zero for this direction and so redundant, is kept beside the nonzero rows
  1 and 2, and likewise rows 3 to 5 for the second camera.
\<close>

theorem TriangulateDLT_drops_no_row:
  "\<not> drops_a_row_per_camera
       (TriangulateDLT_design example_P1 (Vec3 1 0 0) example_P2 (Vec3 1 0 0))
       example_P1 (Vec3 1 0 0) example_P2 (Vec3 1 0 0) \<and>
   rows (TriangulateDLT_design example_P1 (Vec3 1 0 0) example_P2 (Vec3 1 0 0)) = 6 \<and>
   coeff (TriangulateDLT_design example_P1 (Vec3 1 0 0) example_P2 (Vec3 1 0 0)) 0 0 = 0 \<and>
   coeff (TriangulateDLT_design example_P1 (Vec3 1 0 0) example_P2 (Vec3 1 0 0)) 0 1 = 0 \<and>
   coeff (TriangulateDLT_design example_P1 (Vec3 1 0 0) example_P2 (Vec3 1 0 0)) 0 2 = 0 \<and>
   coeff (TriangulateDLT_design example_P1 (Vec3 1 0 0) example_P2 (Vec3 1 0 0)) 0 3 = 0 \<and>
   coeff (TriangulateDLT_design example_P1 (Vec3 1 0 0) example_P2 (Vec3 1 0 0)) 1 2 = - 1 \<and>
   coeff (TriangulateDLT_design example_P1 (Vec3 1 0 0) example_P2 (Vec3 1 0 0)) 2 1 = 1 \<and>
   coeff (TriangulateDLT_design example_P1 (Vec3 1 0 0) example_P2 (Vec3 1 0 0)) 4 2 = - 1 \<and>
   coeff (TriangulateDLT_design example_P1 (Vec3 1 0 0) example_P2 (Vec3 1 0 0)) 5 1 = 1"
proof -
  let ?D = "TriangulateDLT_design example_P1 (Vec3 1 0 0) example_P2 (Vec3 1 0 0)"
  have r: "rows ?D = 6"
    by (simp add: TriangulateDLT_design_shape)
  have n: "\<not> drops_a_row_per_camera ?D example_P1 (Vec3 1 0 0) example_P2 (Vec3 1 0 0)"
  proof
    assume "drops_a_row_per_camera ?D example_P1 (Vec3 1 0 0) example_P2 (Vec3 1 0 0)"
    then obtain k1 k2 where "?D = design_dropping example_P1 (Vec3 1 0 0) example_P2 (Vec3 1 0 0) k1 k2"
      unfolding drops_a_row_per_camera_def by blast
    then have "rows ?D = rows (design_dropping example_P1 (Vec3 1 0 0) example_P2 (Vec3 1 0 0) k1 k2)"
      by simp
    with r show False by (simp add: design_dropping_def)
  qed
  have c: "coeff ?D 0 0 = 0" "coeff ?D 0 1 = 0" "coeff ?D 0 2 = 0" "coeff ?D 0 3 = 0"
    "coeff ?D 1 2 = - 1" "coeff ?D 2 1 = 1" "coeff ?D 4 2 = - 1" "coeff ?D 5 1 = 1"
    by (simp_all add: TriangulateDLT_design_coeff design_entry_def cross3_def col34_def
        example_P1_def example_P2_def)
  show ?thesis using r n c by simp
qed

text \<open>
  C9. For every input the euclidean overload returns normally, and its result is the
  homogeneous point divided, coordinate by coordinate, by its fourth coordinate; where
  that coordinate is zero the coordinates are non-finite doubles, not a failure.
\<close>

theorem TriangulateDLT_euclidean_divides:
  "TriangulateDLT_euclidean Nullspace P1 x1 P2 x2 =
     (let H = Nullspace (TriangulateDLT_design P1 x1 P2 x2)
      in (None, (fdiv (H 0) (H 3), fdiv (H 1) (H 3), fdiv (H 2) (H 3))))"
  by (simp add: TriangulateDLT_euclidean_def TriangulateDLT_def homogeneousToEuclidean_def Let_def)

text \<open>
  On the parallel rays the fourth coordinate of the homogeneous point is zero, and the
  euclidean overload returns three non-finite coordinates without failing.
\<close>

lemma TriangulateDLT_euclidean_parallel_rays:
  "is_null_vector (TriangulateDLT_design example_P1 (Vec3 0 0 1) example_P2 (Vec3 0 0 1))
     (example_Nullspace_z (TriangulateDLT_design example_P1 (Vec3 0 0 1) example_P2 (Vec3 0 0 1))) \<and>
   TriangulateDLT_euclidean example_Nullspace_z example_P1 (Vec3 0 0 1) example_P2 (Vec3 0 0 1) =
     (None, (None, None, None))"
proof -
  have "TriangulateDLT_euclidean example_Nullspace_z example_P1 (Vec3 0 0 1) example_P2 (Vec3 0 0 1) =
     (None, (None, None, None))"
    by (simp add: TriangulateDLT_euclidean_def TriangulateDLT_def homogeneousToEuclidean_def
        example_Nullspace_z_def fdiv_def)
  then show ?thesis using parallel_rays_null_vector by simp
qed

end
